theory Spec2Isabelle
  imports Main "HOL-Library.Word"
begin

section \<open>The record store: tables, constraints and row-level policies\<close>

text \<open>
  The migration creates two tables. Of \<open>public.courses\<close> the modelled code reads only the
  primary key, so the table is kept as the list of its keys; \<open>auth.users\<close> likewise.
  A row of \<open>public.user_courses\<close> has the six columns of the \<open>CREATE TABLE\<close>
  statement; \<open>completed_at\<close> is the only nullable one.
\<close>

type_synonym uuid = string
type_synonym timestamp = nat

record user_course =
  row_id :: uuid
  user_id :: uuid
  course_id :: uuid
  completed :: bool
  completed_at :: "timestamp option"
  created_at :: timestamp

record database =
  users :: "uuid list"
  courses :: "uuid list"
  user_courses :: "user_course list"

text \<open>
  What a request to the store can answer instead of a result: a violated
  \<open>UNIQUE\<close>/\<open>PRIMARY KEY\<close> constraint, a violated \<open>WITH CHECK\<close> policy, a violated
  \<open>REFERENCES\<close> constraint, a \<open>.single()\<close>/\<open>.maybeSingle()\<close> selection of the wrong
  number of rows, or no answer at all.
\<close>

datatype store_error =
  Conflict | Forbidden | ForeignKeyViolation | NotSingleRow | StoreUnavailable

text \<open>
  Everything one run of a handler takes from outside the component: the identity of the
  session (what \<open>auth.getUser()\<close> reports and \<open>auth.uid()\<close> evaluates to), whether the
  first and the second store request of the run fail in transport, the value of \<open>gen_random_uuid()\<close> and of the
  database's \<open>now()\<close> for an inserted row, and the two readings of the client clock
  (\<open>new Date()\<close> is evaluated once for the request and once more for the local view).
\<close>

record env =
  auth_uid :: "uuid option"
  fault :: "store_error option"
  fault2 :: "store_error option"
  new_id :: uuid
  db_now :: timestamp
  clock1 :: timestamp
  clock2 :: timestamp

text \<open>
  \<open>UPDATE user_courses SET completed = c, completed_at = t WHERE id = rid\<close> under the policy
  \<open>USING (auth.uid() = user_id)\<close>: rows the policy hides are skipped, and a statement
  that matches no row is no error.
\<close>

definition db_update ::
  "env \<Rightarrow> database \<Rightarrow> uuid \<Rightarrow> bool \<Rightarrow> timestamp option \<Rightarrow> store_error + database" where
  "db_update e db rid c t =
     (case fault e of
        Some err \<Rightarrow> Inl err
      | None \<Rightarrow>
          Inr (db\<lparr>user_courses :=
                 map (\<lambda>r. if row_id r = rid \<and> auth_uid e = Some (user_id r)
                           then r\<lparr>completed := c, completed_at := t\<rparr> else r)
                     (user_courses db)\<rparr>))"

text \<open>
  \<open>INSERT INTO user_courses (user_id, course_id, completed, completed_at)\<close> followed by
  \<open>.select().single()\<close>: the policy \<open>WITH CHECK (auth.uid() = user_id)\<close> is tested on the
  new row, then the primary key and \<open>UNIQUE(user_id, course_id)\<close>, then the two foreign
  keys. The stored row, with its defaults filled in, is returned.
\<close>

definition db_insert ::
  "env \<Rightarrow> database \<Rightarrow> uuid \<Rightarrow> uuid \<Rightarrow> bool \<Rightarrow> timestamp option
     \<Rightarrow> store_error + (user_course \<times> database)" where
  "db_insert e db u c b t =
     (case fault e of
        Some err \<Rightarrow> Inl err
      | None \<Rightarrow>
          if auth_uid e \<noteq> Some u then Inl Forbidden
          else if list_ex (\<lambda>r. row_id r = new_id e) (user_courses db)
                  \<or> list_ex (\<lambda>r. user_id r = u \<and> course_id r = c) (user_courses db)
               then Inl Conflict
          else if u \<notin> set (users db) \<or> c \<notin> set (courses db) then Inl ForeignKeyViolation
          else
            let r = \<lparr>row_id = new_id e, user_id = u, course_id = c, completed = b,
                     completed_at = t, created_at = db_now e\<rparr>
            in Inr (r, db\<lparr>user_courses := user_courses db @ [r]\<rparr>))"

section \<open>The course detail page\<close>

text \<open>
  The component's state (\<open>useState\<close>): the route parameter \<open>id\<close>, the fetched course,
  the authenticated user as the component last saw it, the user's progress row as the
  component last saw it, and the two busy flags. Of \<open>user\<close> and \<open>course\<close> the code reads
  only the identifier.
\<close>

record course_detail =
  param_id :: uuid
  course :: "uuid option"
  user :: "uuid option"
  userCourse :: "user_course option"
  loading :: bool
  updating :: bool

datatype toast =
    AuthenticationRequired
  | Congratulations
  | MarkedAsIncomplete
  | ErrorToast store_error

datatype store_call =
    SelectCourse uuid
  | SelectUserCourse uuid uuid
  | Update uuid bool "timestamp option"
  | Insert uuid uuid bool "timestamp option"

text \<open>
  What a handler leaves behind: the component state, the store, the toast it showed (if
  any), the route it navigated to (if any), and the requests it sent to the store, in
  order.
\<close>

record outcome =
  view :: course_detail
  store :: database
  toast_shown :: "toast option"
  navigated :: "string option"
  calls :: "store_call list"

text \<open>
  \<open>handleToggleComplete\<close>. The success toast is chosen from \<open>userCourse\<close> as the handler's
  closure holds it, that is, from the value before \<open>setUserCourse\<close>.
\<close>

definition handleToggleComplete :: "env \<Rightarrow> course_detail \<Rightarrow> database \<Rightarrow> outcome" where
  "handleToggleComplete e s db =
     (case user s of
        None \<Rightarrow>
          \<lparr>view = s, store = db, toast_shown = Some AuthenticationRequired,
           navigated = Some ''/auth'', calls = []\<rparr>
      | Some u \<Rightarrow>
          (case userCourse s of
             Some uc \<Rightarrow>
               (case db_update e db (row_id uc) (\<not> completed uc)
                       (if \<not> completed uc then Some (clock1 e) else None) of
                  Inl err \<Rightarrow>
                    \<lparr>view = s\<lparr>updating := False\<rparr>, store = db,
                     toast_shown = Some (ErrorToast err), navigated = None,
                     calls = [Update (row_id uc) (\<not> completed uc)
                                (if \<not> completed uc then Some (clock1 e) else None)]\<rparr>
                | Inr db' \<Rightarrow>
                    \<lparr>view = s\<lparr>userCourse :=
                               Some (uc\<lparr>completed := \<not> completed uc,
                                        completed_at :=
                                          (if \<not> completed uc then Some (clock2 e) else None)\<rparr>),
                             updating := False\<rparr>,
                     store = db',
                     toast_shown =
                       Some (if completed uc then MarkedAsIncomplete else Congratulations),
                     navigated = None,
                     calls = [Update (row_id uc) (\<not> completed uc)
                                (if \<not> completed uc then Some (clock1 e) else None)]\<rparr>)
           | None \<Rightarrow>
               (case db_insert e db u (param_id s) True (Some (clock1 e)) of
                  Inl err \<Rightarrow>
                    \<lparr>view = s\<lparr>updating := False\<rparr>, store = db,
                     toast_shown = Some (ErrorToast err), navigated = None,
                     calls = [Insert u (param_id s) True (Some (clock1 e))]\<rparr>
                | Inr (row, db') \<Rightarrow>
                    \<lparr>view = s\<lparr>userCourse := Some row, updating := False\<rparr>,
                     store = db',
                     toast_shown = Some Congratulations, navigated = None,
                     calls = [Insert u (param_id s) True (Some (clock1 e))]\<rparr>)))"

text \<open>
  \<open>.from("courses").select("*").eq("id", id).single()\<close>; the policy on \<open>courses\<close> is
  \<open>USING (true)\<close>. It is the first store request of \<open>fetchData\<close>.
  Identifiers are taken to be well-formed uuids: for a route parameter that is not one
  the store refuses the query with an error of another kind, which the page handles in
  the same way.
\<close>

definition select_course :: "env \<Rightarrow> database \<Rightarrow> uuid \<Rightarrow> store_error + uuid" where
  "select_course e db cid =
     (case fault e of
        Some err \<Rightarrow> Inl err
      | None \<Rightarrow>
          (case filter (\<lambda>c. c = cid) (courses db) of
             [c] \<Rightarrow> Inr c
           | _ \<Rightarrow> Inl NotSingleRow))"

text \<open>
  \<open>.from("user_courses").select("*").eq("user_id", u).eq("course_id", c).maybeSingle()\<close>
  under the policy \<open>USING (auth.uid() = user_id)\<close>. It is the second store request of
  \<open>fetchData\<close>.
\<close>

definition select_user_course ::
  "env \<Rightarrow> database \<Rightarrow> uuid \<Rightarrow> uuid \<Rightarrow> store_error + user_course option" where
  "select_user_course e db u c =
     (case fault2 e of
        Some err \<Rightarrow> Inl err
      | None \<Rightarrow>
          (case filter (\<lambda>r. auth_uid e = Some (user_id r) \<and> user_id r = u \<and> course_id r = c)
                  (user_courses db) of
             [] \<Rightarrow> Inr None
           | [r] \<Rightarrow> Inr (Some r)
           | _ \<Rightarrow> Inl NotSingleRow))"

text \<open>The component as \<open>useState\<close> initialises it, for the route \<open>/courses/:id\<close>.\<close>

definition initial_state :: "uuid \<Rightarrow> course_detail" where
  "initial_state cid =
     \<lparr>param_id = cid, course = None, user = None, userCourse = None,
      loading = True, updating = False\<rparr>"

text \<open>
  \<open>fetchData\<close>, run by the effect on mount. A failed course query is thrown and caught
  (toast, redirect to the home page); the progress query's error is not looked at, its
  \<open>data\<close> is then \<open>null\<close>.
\<close>

definition fetchData :: "env \<Rightarrow> course_detail \<Rightarrow> database \<Rightarrow> outcome" where
  "fetchData e s db =
     (case select_course e db (param_id s) of
        Inl err \<Rightarrow>
          \<lparr>view = s\<lparr>user := auth_uid e, loading := False\<rparr>, store = db,
           toast_shown = Some (ErrorToast err), navigated = Some ''/'',
           calls = [SelectCourse (param_id s)]\<rparr>
      | Inr c \<Rightarrow>
          (case auth_uid e of
             None \<Rightarrow>
               \<lparr>view = s\<lparr>user := None, course := Some c, loading := False\<rparr>, store = db,
                toast_shown = None, navigated = None,
                calls = [SelectCourse (param_id s)]\<rparr>
           | Some u \<Rightarrow>
               \<lparr>view = s\<lparr>user := Some u, course := Some c,
                          userCourse :=
                            (case select_user_course e db u (param_id s) of
                               Inl err \<Rightarrow> None
                             | Inr d \<Rightarrow> d),
                          loading := False\<rparr>,
                store = db, toast_shown = None, navigated = None,
                calls = [SelectCourse (param_id s), SelectUserCourse u (param_id s)]\<rparr>))"

text \<open>A run of toggles in one mounted component, one environment per click.\<close>

fun toggles :: "env list \<Rightarrow> course_detail \<Rightarrow> database \<Rightarrow> course_detail \<times> database" where
  "toggles [] s db = (s, db)"
| "toggles (e # es) s db =
     toggles es (view (handleToggleComplete e s db)) (store (handleToggleComplete e s db))"

section \<open>Vocabulary of the specification\<close>

text \<open>
  The three states of a (principal, course) pair, read off the store: no row, a row
  with \<open>completed = false\<close>, a row with \<open>completed = true\<close>.
\<close>

datatype progress_state = NOT_STARTED | IN_PROGRESS | COMPLETED

definition progress_of :: "database \<Rightarrow> uuid \<Rightarrow> uuid \<Rightarrow> progress_state" where
  "progress_of db u c =
     (case find (\<lambda>r. user_id r = u \<and> course_id r = c) (user_courses db) of
        None \<Rightarrow> NOT_STARTED
      | Some r \<Rightarrow> if completed r then COMPLETED else IN_PROGRESS)"

text \<open>The row invariant: \<open>completed\<close> is true exactly when \<open>completed_at\<close> is set.\<close>

definition completed_iff_at :: "user_course \<Rightarrow> bool" where
  "completed_iff_at r = (completed r = (completed_at r \<noteq> None))"

text \<open>The table invariant: no two rows for one (user, course) pair.\<close>

definition unique_pairs :: "database \<Rightarrow> bool" where
  "unique_pairs db = distinct (map (\<lambda>r. (user_id r, course_id r)) (user_courses db))"

text \<open>A toggle succeeded when it showed one of its two success toasts.\<close>

definition succeeded :: "outcome \<Rightarrow> bool" where
  "succeeded r =
     (toast_shown r = Some Congratulations \<or> toast_shown r = Some MarkedAsIncomplete)"

text \<open>The requests that write: the insert and the update.\<close>

fun is_write :: "store_call \<Rightarrow> bool" where
  "is_write (Update rid b t) = True"
| "is_write (Insert u c b t) = True"
| "is_write (SelectCourse c) = False"
| "is_write (SelectUserCourse u c) = False"

text \<open>
  The component and the store agree on the pair \<open>(u, c)\<close>: the component holds a row
  with identifier \<open>i\<close> and \<open>completed = b\<close>, the store has a row for the pair, and every
  row of the store for the pair has that identifier and that value.
\<close>

definition in_sync ::
  "uuid \<Rightarrow> uuid \<Rightarrow> uuid \<Rightarrow> bool \<Rightarrow> course_detail \<Rightarrow> database \<Rightarrow> bool" where
  "in_sync u c i b s db =
     (user s = Some u \<and> param_id s = c
      \<and> (case userCourse s of None \<Rightarrow> False | Some v \<Rightarrow> row_id v = i \<and> completed v = b)
      \<and> list_ex (\<lambda>r. user_id r = u \<and> course_id r = c) (user_courses db)
      \<and> list_all (\<lambda>r. user_id r = u \<and> course_id r = c \<longrightarrow> row_id r = i \<and> completed r = b)
           (user_courses db))"

section \<open>Two sessions of one principal\<close>

text \<open>
  Principal \<open>u1\<close> and course \<open>c1\<close> of the specification's scenarios. A session's
  request at time \<open>t\<close> is answered without transport failure; \<open>rid\<close> is the identifier
  the store would give a row inserted by it. A component is mounted on a store by
  \<open>fetchData\<close>. Starting with no row, one toggle gives the store \<open>db_completed\<close>, a
  second toggle (of a component mounted after the first) \<open>db_in_progress\<close>, a third
  \<open>db_completed_again\<close>.
\<close>

definition session_env :: "uuid \<Rightarrow> timestamp \<Rightarrow> env" where
  "session_env rid t =
     \<lparr>auth_uid = Some ''u1'', fault = None, fault2 = None, new_id = rid, db_now = t,
      clock1 = t, clock2 = t\<rparr>"

definition db_not_started :: database where
  "db_not_started = \<lparr>users = [''u1''], courses = [''c1''], user_courses = []\<rparr>"

definition mounted :: "database \<Rightarrow> course_detail" where
  "mounted db = view (fetchData (session_env ''r0'' 1) (initial_state ''c1'') db)"

definition db_completed :: database where
  "db_completed =
     store (handleToggleComplete (session_env ''r1'' 2) (mounted db_not_started) db_not_started)"

definition db_in_progress :: database where
  "db_in_progress =
     store (handleToggleComplete (session_env ''r2'' 3) (mounted db_completed) db_completed)"

definition db_completed_again :: database where
  "db_completed_again =
     store (handleToggleComplete (session_env ''r3'' 4) (mounted db_in_progress) db_in_progress)"

text \<open>
  The first page of the scenario after its own first toggle, the one that created the
  row: it stays open while other pages are mounted and toggled.
\<close>

definition first_page :: course_detail where
  "first_page =
     view (handleToggleComplete (session_env ''r1'' 2) (mounted db_not_started) db_not_started)"

text \<open>
  The store after course \<open>c1\<close> has been deleted from \<open>public.courses\<close>: the progress rows
  that reference it go with it (\<open>ON DELETE CASCADE\<close>).
\<close>

definition db_course_deleted :: database where
  "db_course_deleted = \<lparr>users = [''u1''], courses = [], user_courses = []\<rparr>"

section \<open>The authentication page\<close>

text \<open>
  A JavaScript string is a sequence of UTF-16 code units, and \<open>.length\<close> (which
  \<open>z.string().min(6)\<close> compares) counts them. The syntax test of \<open>z.string().email()\<close>
  belongs to the validation library and is a parameter \<open>email_ok\<close> of the model.
\<close>

type_synonym js_string = "16 word list"

record auth_page =
  email :: js_string
  password :: js_string
  auth_loading :: bool

datatype auth_toast =
    ValidationError string
  | SignUpFailed string
  | SignUpSuccess
  | LoginFailed string

datatype auth_call =
    SignUp js_string js_string js_string
  | SignInWithPassword js_string js_string

record auth_outcome =
  form :: auth_page
  auth_toast_shown :: "auth_toast option"
  auth_navigated :: "string option"
  auth_calls :: "auth_call list"

text \<open>\<open>String.prototype.trim\<close>: white space and line terminators go, at both ends.\<close>

definition js_whitespace :: "16 word \<Rightarrow> bool" where
  "js_whitespace c =
     (c \<in> set [0x9, 0xA, 0xB, 0xC, 0xD, 0x20, 0xA0, 0x1680, 0x2028, 0x2029, 0x202F,
               0x205F, 0x3000, 0xFEFF]
      \<or> (0x2000 \<le> c \<and> c \<le> 0x200A))"

definition js_trim :: "js_string \<Rightarrow> js_string" where
  "js_trim s = rev (dropWhile js_whitespace (rev (dropWhile js_whitespace s)))"

text \<open>
  \<open>validateInputs\<close>: the e-mail schema is parsed first, so its message wins; the toast
  shows the first issue of the error thrown.
\<close>

definition validateInputs :: "(js_string \<Rightarrow> bool) \<Rightarrow> auth_page \<Rightarrow> bool \<times> auth_toast option" where
  "validateInputs email_ok f =
     (if \<not> email_ok (email f) then (False, Some (ValidationError ''Invalid email address''))
      else if length (password f) < 6
        then (False, Some (ValidationError ''Password must be at least 6 characters''))
      else (True, None))"

text \<open>
  \<open>handleSignUp\<close> and \<open>handleLogin\<close>; \<open>origin\<close> is \<open>window.location.origin\<close> and
  \<open>perr\<close> the error message of the identity provider's answer, if it answers with one.
\<close>

definition handleSignUp ::
  "(js_string \<Rightarrow> bool) \<Rightarrow> js_string \<Rightarrow> string option \<Rightarrow> auth_page \<Rightarrow> auth_outcome" where
  "handleSignUp email_ok origin perr f =
     (case validateInputs email_ok f of
        (False, t) \<Rightarrow>
          \<lparr>form = f, auth_toast_shown = t, auth_navigated = None, auth_calls = []\<rparr>
      | (True, t) \<Rightarrow>
          \<lparr>form = f\<lparr>auth_loading := False\<rparr>,
           auth_toast_shown =
             Some (case perr of Some m \<Rightarrow> SignUpFailed m | None \<Rightarrow> SignUpSuccess),
           auth_navigated = None,
           auth_calls = [SignUp (js_trim (email f)) (password f) (origin @ [0x2F])]\<rparr>)"

definition handleLogin ::
  "(js_string \<Rightarrow> bool) \<Rightarrow> string option \<Rightarrow> auth_page \<Rightarrow> auth_outcome" where
  "handleLogin email_ok perr f =
     (case validateInputs email_ok f of
        (False, t) \<Rightarrow>
          \<lparr>form = f, auth_toast_shown = t, auth_navigated = None, auth_calls = []\<rparr>
      | (True, t) \<Rightarrow>
          \<lparr>form = f\<lparr>auth_loading := False\<rparr>,
           auth_toast_shown = (case perr of Some m \<Rightarrow> Some (LoginFailed m) | None \<Rightarrow> None),
           auth_navigated = (case perr of Some m \<Rightarrow> None | None \<Rightarrow> Some ''/courses''),
           auth_calls = [SignInWithPassword (js_trim (email f)) (password f)]\<rparr>)"

section \<open>Evaluating the two-session scenario\<close>

lemmas toggle_defs = handleToggleComplete_def db_insert_def db_update_def Let_def

lemma mounted_not_started:
  "mounted db_not_started =
     \<lparr>param_id = ''c1'', course = Some ''c1'', user = Some ''u1'', userCourse = None,
      loading = False, updating = False\<rparr>"
  by (simp add: session_env_def db_not_started_def mounted_def fetchData_def initial_state_def
        select_course_def select_user_course_def)

lemma db_completed_rows:
  "db_completed =
     \<lparr>users = [''u1''], courses = [''c1''],
      user_courses = [\<lparr>row_id = ''r1'', user_id = ''u1'', course_id = ''c1'',
                       completed = True, completed_at = Some 2, created_at = 2\<rparr>]\<rparr>"
  unfolding db_completed_def mounted_not_started
  by (simp add: db_not_started_def session_env_def toggle_defs)

lemma mounted_completed:
  "mounted db_completed =
     \<lparr>param_id = ''c1'', course = Some ''c1'', user = Some ''u1'',
      userCourse = Some \<lparr>row_id = ''r1'', user_id = ''u1'', course_id = ''c1'',
                         completed = True, completed_at = Some 2, created_at = 2\<rparr>,
      loading = False, updating = False\<rparr>"
  unfolding db_completed_rows
  by (simp add: mounted_def fetchData_def initial_state_def select_course_def
        select_user_course_def session_env_def)

lemma db_in_progress_rows:
  "db_in_progress =
     \<lparr>users = [''u1''], courses = [''c1''],
      user_courses = [\<lparr>row_id = ''r1'', user_id = ''u1'', course_id = ''c1'',
                       completed = False, completed_at = None, created_at = 2\<rparr>]\<rparr>"
  unfolding db_in_progress_def mounted_completed
  by (simp add: db_completed_rows session_env_def toggle_defs)

lemma mounted_in_progress:
  "mounted db_in_progress =
     \<lparr>param_id = ''c1'', course = Some ''c1'', user = Some ''u1'',
      userCourse = Some \<lparr>row_id = ''r1'', user_id = ''u1'', course_id = ''c1'',
                         completed = False, completed_at = None, created_at = 2\<rparr>,
      loading = False, updating = False\<rparr>"
  unfolding db_in_progress_rows
  by (simp add: mounted_def fetchData_def initial_state_def select_course_def
        select_user_course_def session_env_def)

lemma db_completed_again_rows:
  "db_completed_again =
     \<lparr>users = [''u1''], courses = [''c1''],
      user_courses = [\<lparr>row_id = ''r1'', user_id = ''u1'', course_id = ''c1'',
                       completed = True, completed_at = Some 4, created_at = 2\<rparr>]\<rparr>"
  unfolding db_completed_again_def mounted_in_progress
  by (simp add: db_in_progress_rows session_env_def toggle_defs)

lemma first_page_view:
  "first_page =
     \<lparr>param_id = ''c1'', course = Some ''c1'', user = Some ''u1'',
      userCourse = Some \<lparr>row_id = ''r1'', user_id = ''u1'', course_id = ''c1'',
                         completed = True, completed_at = Some 2, created_at = 2\<rparr>,
      loading = False, updating = False\<rparr>"
  unfolding first_page_def mounted_not_started
  by (simp add: db_not_started_def session_env_def toggle_defs)

section \<open>A component in step with the store\<close>

lemma in_sync_progress:
  "in_sync u c i b s db \<Longrightarrow> progress_of db u c = (if b then COMPLETED else IN_PROGRESS)"
  by (auto simp add: in_sync_def progress_of_def list_all_iff list_ex_iff find_None_iff
        split: option.splits dest!: find_Some_iff [THEN iffD1] nth_mem)

lemma not_started_iff:
  "progress_of db u c = NOT_STARTED \<longleftrightarrow>
     \<not> list_ex (\<lambda>r. user_id r = u \<and> course_id r = c) (user_courses db)"
  by (auto simp add: progress_of_def list_ex_iff find_None_iff split: option.splits
        dest!: find_Some_iff [THEN iffD1] nth_mem)

lemma toggle_first:
  assumes "user s = Some u" and "param_id s = c" and "userCourse s = None"
    and "\<not> list_ex (\<lambda>r. user_id r = u \<and> course_id r = c) (user_courses db)"
    and "\<not> list_ex (\<lambda>r. row_id r = new_id e) (user_courses db)"
    and "u \<in> set (users db)" and "c \<in> set (courses db)"
    and "fault e = None" and "auth_uid e = Some u"
  shows "in_sync u c (new_id e) True (view (handleToggleComplete e s db))
           (store (handleToggleComplete e s db))"
  using assms
  by (auto simp add: handleToggleComplete_def db_insert_def in_sync_def Let_def list_all_iff
        list_ex_iff)

lemma update_rows_all:
  "list_all (\<lambda>r. user_id r = u \<and> course_id r = c \<longrightarrow> row_id r = i \<and> completed r = b) rows \<Longrightarrow>
   list_all (\<lambda>r. user_id r = u \<and> course_id r = c \<longrightarrow>
                       row_id r = i \<and> completed r = b' \<and> completed_at r = t)
     (map (\<lambda>r. if row_id r = i \<and> Some u = Some (user_id r)
               then r\<lparr>completed := b', completed_at := t\<rparr> else r) rows)"
  by (induction rows) auto

lemma update_rows_ex:
  "list_ex (\<lambda>r. user_id r = u \<and> course_id r = c) rows \<Longrightarrow>
   list_ex (\<lambda>r. user_id r = u \<and> course_id r = c)
     (map (\<lambda>r. if P r then r\<lparr>completed := b', completed_at := t\<rparr> else r) rows)"
  by (induction rows) auto

lemma toggle_step_rows:
  assumes "in_sync u c i b s db" and "fault e = None" and "auth_uid e = Some u"
  shows "user_courses (store (handleToggleComplete e s db)) =
           map (\<lambda>r. if row_id r = i \<and> Some u = Some (user_id r)
                     then r\<lparr>completed := \<not> b,
                            completed_at := (if b then None else Some (clock1 e))\<rparr>
                     else r) (user_courses db)"
  using assms
  by (auto simp add: handleToggleComplete_def db_update_def in_sync_def split: option.splits)

lemma toggle_step_view:
  assumes "in_sync u c i b s db" and "fault e = None" and "auth_uid e = Some u"
  shows "user (view (handleToggleComplete e s db)) = Some u
         \<and> param_id (view (handleToggleComplete e s db)) = c
         \<and> (case userCourse (view (handleToggleComplete e s db)) of
               None \<Rightarrow> False
             | Some v \<Rightarrow> row_id v = i \<and> completed v = (\<not> b)
                 \<and> completed_at v = (if b then None else Some (clock2 e)))
         \<and> succeeded (handleToggleComplete e s db)"
  using assms
  by (auto simp add: handleToggleComplete_def db_update_def in_sync_def succeeded_def
        split: option.splits)

lemma toggle_step_written:
  assumes "in_sync u c i b s db" and "fault e = None" and "auth_uid e = Some u"
  shows "list_all (\<lambda>r. user_id r = u \<and> course_id r = c \<longrightarrow>
                       row_id r = i \<and> completed r = (\<not> b)
                       \<and> completed_at r = (if b then None else Some (clock1 e)))
           (user_courses (store (handleToggleComplete e s db)))"
  and "list_ex (\<lambda>r. user_id r = u \<and> course_id r = c)
           (user_courses (store (handleToggleComplete e s db)))"
proof -
  from assms(1)
  have ex: "list_ex (\<lambda>r. user_id r = u \<and> course_id r = c) (user_courses db)"
    and al: "list_all (\<lambda>r. user_id r = u \<and> course_id r = c \<longrightarrow> row_id r = i \<and> completed r = b)
               (user_courses db)"
    by (simp_all add: in_sync_def)
  from update_rows_all [OF al, where b' = "\<not> b" and t = "if b then None else Some (clock1 e)"]
    update_rows_ex [OF ex, where b' = "\<not> b" and t = "if b then None else Some (clock1 e)"
      and P = "\<lambda>r. row_id r = i \<and> Some u = Some (user_id r)"]
  show "list_all (\<lambda>r. user_id r = u \<and> course_id r = c \<longrightarrow>
                       row_id r = i \<and> completed r = (\<not> b)
                       \<and> completed_at r = (if b then None else Some (clock1 e)))
           (user_courses (store (handleToggleComplete e s db)))"
    and "list_ex (\<lambda>r. user_id r = u \<and> course_id r = c)
           (user_courses (store (handleToggleComplete e s db)))"
    unfolding toggle_step_rows [OF assms] by simp_all
qed

lemma toggle_step:
  assumes "in_sync u c i b s db" and "fault e = None" and "auth_uid e = Some u"
  shows "in_sync u c i (\<not> b) (view (handleToggleComplete e s db))
           (store (handleToggleComplete e s db))"
proof -
  from toggle_step_written(1) [OF assms]
  have "list_all (\<lambda>r. user_id r = u \<and> course_id r = c \<longrightarrow> row_id r = i \<and> completed r = (\<not> b))
           (user_courses (store (handleToggleComplete e s db)))"
    by (simp add: list_all_iff)
  with toggle_step_view [OF assms] toggle_step_written(2) [OF assms]
  show ?thesis
    by (simp add: in_sync_def split: option.splits)
qed

lemma toggle_step_columns:
  assumes "in_sync u c i b s db" and "fault e = None" and "auth_uid e = Some u"
  shows "map row_id (user_courses (store (handleToggleComplete e s db)))
           = map row_id (user_courses db)
         \<and> map user_id (user_courses (store (handleToggleComplete e s db)))
           = map user_id (user_courses db)
         \<and> map course_id (user_courses (store (handleToggleComplete e s db)))
           = map course_id (user_courses db)
         \<and> map created_at (user_courses (store (handleToggleComplete e s db)))
           = map created_at (user_courses db)"
  unfolding toggle_step_rows [OF assms] by (simp add: comp_def if_distrib cong: if_cong)

lemma toggles_in_sync:
  "in_sync u c i b s db \<Longrightarrow> list_all (\<lambda>e. fault e = None \<and> auth_uid e = Some u) es \<Longrightarrow>
     in_sync u c i (b \<noteq> odd (length es)) (fst (toggles es s db)) (snd (toggles es s db))"
proof (induction es arbitrary: b s db)
  case Nil
  then show ?case by simp
next
  case (Cons e es)
  from Cons.prems have e: "fault e = None" "auth_uid e = Some u"
    and es: "list_all (\<lambda>e. fault e = None \<and> auth_uid e = Some u) es"
    by simp_all
  from toggle_step [OF Cons.prems(1) e]
  have "in_sync u c i (\<not> b) (view (handleToggleComplete e s db))
          (store (handleToggleComplete e s db))" .
  from Cons.IH [OF this es] show ?case by (simp add: neq_commute)
qed

lemma fetchData_not_started:
  assumes "auth_uid e0 = Some u"
    and "\<not> list_ex (\<lambda>r. user_id r = u \<and> course_id r = c) (user_courses db)"
  shows "user (view (fetchData e0 (initial_state c) db)) = Some u
         \<and> param_id (view (fetchData e0 (initial_state c) db)) = c
         \<and> userCourse (view (fetchData e0 (initial_state c) db)) = None"
proof -
  from assms(2)
  have "filter (\<lambda>r. auth_uid e0 = Some (user_id r) \<and> user_id r = u \<and> course_id r = c)
          (user_courses db) = []"
    by (auto simp add: list_ex_iff filter_empty_conv)
  then have "(case select_user_course e0 db u c of Inl err \<Rightarrow> None | Inr d \<Rightarrow> d) = None"
    by (simp add: select_user_course_def split: option.splits)
  with assms(1) show ?thesis
    by (simp add: fetchData_def initial_state_def split: sum.splits)
qed

section \<open>Where the toggle takes its decision from\<close>

text \<open>
  Against C1 as stated. Two components of \<open>u1\<close> are mounted while the store says
  \<open>completed = true\<close>; one of them toggles, the store now says \<open>completed = false\<close>.
  The toggle of the other sends one request, an update and no read, and writes
  \<open>completed = false\<close>: the negation of the value it holds since mount, not of the value
  in the store, which stays as it was.
\<close>

theorem toggle_rereads_counterexample:
  "map_option completed (userCourse (mounted db_completed)) = Some True
   \<and> map completed (user_courses db_in_progress) = [False]
   \<and> calls (handleToggleComplete (session_env ''r4'' 5) (mounted db_completed) db_in_progress)
       = [Update ''r1'' False None]
   \<and> map completed
       (user_courses
          (store (handleToggleComplete (session_env ''r4'' 5) (mounted db_completed)
                    db_in_progress)))
       = [False]"
  unfolding mounted_completed
  by (simp add: db_in_progress_rows session_env_def toggle_defs)

text \<open>
  C1, amended. A toggle of an authenticated user sends exactly one request to the
  store, a write and no read, and that request is fixed by the component's own
  \<open>userCourse\<close> and clock: an update to the negation of \<open>userCourse.completed\<close> when
  \<open>userCourse\<close> is set, an insert with \<open>completed = true\<close> when it is not. The request is
  the same whatever the store holds.
\<close>

theorem toggle_decides_from_view:
  "user s = Some u \<Longrightarrow>
     calls (handleToggleComplete e s db) =
       (case userCourse s of
          Some uc \<Rightarrow>
            [Update (row_id uc) (\<not> completed uc)
               (if completed uc then None else Some (clock1 e))]
        | None \<Rightarrow> [Insert u (param_id s) True (Some (clock1 e))])
     \<and> calls (handleToggleComplete e s db) = calls (handleToggleComplete e s db2)
     \<and> list_all is_write (calls (handleToggleComplete e s db))"
  by (auto simp add: handleToggleComplete_def split: option.splits sum.splits)

theorem toggle_decides_from_view_witness:
  "user (mounted db_completed) = Some ''u1''
   \<and> calls (handleToggleComplete (session_env ''r4'' 5) (mounted db_completed) db_in_progress)
       = calls (handleToggleComplete (session_env ''r4'' 5) (mounted db_completed) db_completed)"
proof -
  have u: "user (mounted db_completed) = Some ''u1''"
    unfolding mounted_completed by simp
  from toggle_decides_from_view
         [OF u, where e = "session_env ''r4'' 5" and db = db_in_progress and ?db2.0 = db_completed,
          THEN conjunct2, THEN conjunct1] u
  show ?thesis by simp
qed

section \<open>A lost creation race\<close>

text \<open>
  Against C2 as stated. Two components of \<open>u1\<close> are mounted while no row exists; one of
  them toggles and creates the row. The toggle of the other sends the insert and nothing
  else, shows the conflict as an error and leaves the store as it was, although an
  update of the row that now exists would have been accepted.
\<close>

theorem toggle_conflict_retry_counterexample:
  "toast_shown (handleToggleComplete (session_env ''r4'' 5) (mounted db_not_started) db_completed)
     = Some (ErrorToast Conflict)
   \<and> calls (handleToggleComplete (session_env ''r4'' 5) (mounted db_not_started) db_completed)
       = [Insert ''u1'' ''c1'' True (Some 5)]
   \<and> store (handleToggleComplete (session_env ''r4'' 5) (mounted db_not_started) db_completed)
       = db_completed
   \<and> \<not> isl (db_update (session_env ''r4'' 5) db_completed ''r1'' False None)"
  unfolding mounted_not_started
  by (simp add: db_completed_rows session_env_def toggle_defs)

text \<open>
  C2, amended. When the component holds no row and the store already has one for the
  (user, course) pair, the toggle sends the insert only, with no read and no second
  attempt; the conflict is shown to the user as the error toast, and store and
  \<open>userCourse\<close> stay as they were.
\<close>

theorem toggle_conflict_surfaces:
  assumes "user s = Some u" and "userCourse s = None"
    and "fault e = None" and "auth_uid e = Some u"
    and "list_ex (\<lambda>r. user_id r = u \<and> course_id r = param_id s) (user_courses db)"
  shows "calls (handleToggleComplete e s db) = [Insert u (param_id s) True (Some (clock1 e))]
         \<and> toast_shown (handleToggleComplete e s db) = Some (ErrorToast Conflict)
         \<and> store (handleToggleComplete e s db) = db
         \<and> view (handleToggleComplete e s db) = s\<lparr>updating := False\<rparr>"
  using assms by (simp add: handleToggleComplete_def db_insert_def)

theorem toggle_conflict_surfaces_witness:
  "user (mounted db_not_started) = Some ''u1''
   \<and> userCourse (mounted db_not_started) = None
   \<and> fault (session_env ''r4'' 5) = None
   \<and> auth_uid (session_env ''r4'' 5) = Some ''u1''
   \<and> list_ex (\<lambda>r. user_id r = ''u1'' \<and> course_id r = param_id (mounted db_not_started))
        (user_courses db_completed)
   \<and> toast_shown (handleToggleComplete (session_env ''r4'' 5) (mounted db_not_started) db_completed)
       = Some (ErrorToast Conflict)"
proof -
  have h: "user (mounted db_not_started) = Some ''u1''"
    "userCourse (mounted db_not_started) = None"
    "fault (session_env ''r4'' 5) = None"
    "auth_uid (session_env ''r4'' 5) = Some ''u1''"
    "list_ex (\<lambda>r. user_id r = ''u1'' \<and> course_id r = param_id (mounted db_not_started))
        (user_courses db_completed)"
    unfolding mounted_not_started by (simp_all add: db_completed_rows session_env_def)
  from toggle_conflict_surfaces [OF h] h show ?thesis by simp
qed

section \<open>Parity of a run of toggles\<close>

text \<open>
  Against C3 as stated. From \<open>NOT_STARTED\<close>, principal \<open>u1\<close> toggles three times, every
  toggle reaching the store under \<open>u1\<close>'s identity and succeeding: the first page
  creates the row (\<open>COMPLETED\<close>); a second page is mounted and toggles
  (\<open>IN_PROGRESS\<close>); the first page, which still holds \<open>completed = true\<close>, toggles
  again and writes \<open>completed = false\<close>. After an odd number of toggles the pair is
  \<open>IN_PROGRESS\<close>.
\<close>

theorem toggle_parity_counterexample:
  "progress_of db_not_started ''u1'' ''c1'' = NOT_STARTED
   \<and> succeeded (handleToggleComplete (session_env ''r1'' 2) (mounted db_not_started)
                  db_not_started)
   \<and> succeeded (handleToggleComplete (session_env ''r2'' 3) (mounted db_completed) db_completed)
   \<and> succeeded (handleToggleComplete (session_env ''r4'' 5) first_page db_in_progress)
   \<and> progress_of (store (handleToggleComplete (session_env ''r4'' 5) first_page db_in_progress))
        ''u1'' ''c1'' = IN_PROGRESS"
  unfolding first_page_view mounted_not_started mounted_completed
  by (simp add: db_not_started_def db_completed_rows db_in_progress_rows session_env_def
        toggle_defs succeeded_def progress_of_def)

text \<open>
  C3, amended. Principal \<open>u\<close> and course \<open>c\<close> exist and the store has no row for the pair
  (\<open>NOT_STARTED\<close>). One page is mounted for \<open>u\<close> and that same page is toggled once
  per element of \<open>es\<close>, with no write by any other page in between, every request
  reaching the store under \<open>u\<close>'s identity, the identifier drawn for the first insert
  being unused. After an odd number of toggles the pair is \<open>COMPLETED\<close>; after an even
  number it has \<open>completed = false\<close>: \<open>NOT_STARTED\<close> after none, \<open>IN_PROGRESS\<close>
  otherwise. The page's own row says the same.
\<close>

theorem toggle_parity:
  assumes "progress_of db u c = NOT_STARTED"
    and "u \<in> set (users db)" and "c \<in> set (courses db)"
    and "auth_uid e0 = Some u"
    and "list_all (\<lambda>e. fault e = None \<and> auth_uid e = Some u) es"
    and "es \<noteq> [] \<longrightarrow> \<not> list_ex (\<lambda>r. row_id r = new_id (hd es)) (user_courses db)"
  shows "progress_of (snd (toggles es (view (fetchData e0 (initial_state c) db)) db)) u c
           = (if es = [] then NOT_STARTED
              else if even (length es) then IN_PROGRESS else COMPLETED)
         \<and> (case userCourse (fst (toggles es (view (fetchData e0 (initial_state c) db)) db)) of
               None \<Rightarrow> es = []
             | Some uc \<Rightarrow> es \<noteq> [] \<and> completed uc = odd (length es))"
proof (cases es)
  case Nil
  with assms(1,4) fetchData_not_started [of e0 u c db] show ?thesis
    by (simp add: not_started_iff)
next
  case (Cons e es')
  let ?s = "view (fetchData e0 (initial_state c) db)"
  let ?r = "handleToggleComplete e ?s db"
  from assms(1) have none: "\<not> list_ex (\<lambda>r. user_id r = u \<and> course_id r = c) (user_courses db)"
    by (simp add: not_started_iff)
  from fetchData_not_started [OF assms(4) none]
  have s: "user ?s = Some u" "param_id ?s = c" "userCourse ?s = None" by simp_all
  from assms(5) Cons have e: "fault e = None" "auth_uid e = Some u"
    and es': "list_all (\<lambda>e. fault e = None \<and> auth_uid e = Some u) es'"
    by simp_all
  from assms(6) Cons have fresh: "\<not> list_ex (\<lambda>r. row_id r = new_id e) (user_courses db)"
    by simp
  from toggle_first [OF s none fresh assms(2,3) e]
  have "in_sync u c (new_id e) True (view ?r) (store ?r)" .
  from toggles_in_sync [OF this es']
  have sync: "in_sync u c (new_id e) (True \<noteq> odd (length es'))
           (fst (toggles es ?s db)) (snd (toggles es ?s db))"
    by (simp add: Cons)
  from in_sync_progress [OF sync] have "progress_of (snd (toggles es ?s db)) u c
      = (if even (length es) then IN_PROGRESS else COMPLETED)"
    by (simp add: Cons)
  moreover from sync have "case userCourse (fst (toggles es ?s db)) of
               None \<Rightarrow> es = []
             | Some uc \<Rightarrow> es \<noteq> [] \<and> completed uc = odd (length es)"
    by (auto simp add: in_sync_def Cons split: option.splits)
  ultimately show ?thesis by (simp add: Cons)
qed

theorem toggle_parity_witness:
  "progress_of db_not_started ''u1'' ''c1'' = NOT_STARTED
   \<and> progress_of
       (snd (toggles [session_env ''r1'' 2, session_env ''r2'' 3, session_env ''r3'' 4]
               (view (fetchData (session_env ''r0'' 1) (initial_state ''c1'') db_not_started))
               db_not_started)) ''u1'' ''c1'' = COMPLETED
   \<and> progress_of
       (snd (toggles [session_env ''r1'' 2, session_env ''r2'' 3]
               (view (fetchData (session_env ''r0'' 1) (initial_state ''c1'') db_not_started))
               db_not_started)) ''u1'' ''c1'' = IN_PROGRESS"
proof -
  have h: "progress_of db_not_started ''u1'' ''c1'' = NOT_STARTED"
    "''u1'' \<in> set (users db_not_started)" "''c1'' \<in> set (courses db_not_started)"
    "auth_uid (session_env ''r0'' 1) = Some ''u1''"
    by (simp_all add: db_not_started_def progress_of_def session_env_def)
  have e3: "list_all (\<lambda>e. fault e = None \<and> auth_uid e = Some ''u1'')
              [session_env ''r1'' 2, session_env ''r2'' 3, session_env ''r3'' 4]"
    and e2: "list_all (\<lambda>e. fault e = None \<and> auth_uid e = Some ''u1'')
              [session_env ''r1'' 2, session_env ''r2'' 3]"
    by (simp_all add: session_env_def)
  have f3: "[session_env ''r1'' 2, session_env ''r2'' 3, session_env ''r3'' 4] \<noteq> [] \<longrightarrow>
       \<not> list_ex (\<lambda>r. row_id r = new_id (hd [session_env ''r1'' 2, session_env ''r2'' 3,
                     session_env ''r3'' 4])) (user_courses db_not_started)"
    and f2: "[session_env ''r1'' 2, session_env ''r2'' 3] \<noteq> [] \<longrightarrow>
       \<not> list_ex (\<lambda>r. row_id r = new_id (hd [session_env ''r1'' 2, session_env ''r2'' 3]))
           (user_courses db_not_started)"
    by (simp_all add: db_not_started_def)
  from toggle_parity [OF h e3 f3] toggle_parity [OF h e2 f2] h(1)
  show ?thesis by simp
qed

section \<open>The update of an existing row\<close>

text \<open>
  Against C4 as stated. A component of \<open>u1\<close> is mounted while the store says
  \<open>completed = false\<close>; another session completes the course at time 4. The toggle of
  the first component at time 5 succeeds, and the row that was \<open>completed = true\<close> is
  \<open>completed = true\<close> afterwards, with \<open>completed_at\<close> moved to 5, where the claim has
  \<open>completed = false\<close> and no \<open>completed_at\<close>.
\<close>

theorem toggle_flips_record_counterexample:
  "succeeded (handleToggleComplete (session_env ''r4'' 5) (mounted db_in_progress)
                db_completed_again)
   \<and> progress_of db_completed_again ''u1'' ''c1'' = COMPLETED
   \<and> map completed_at (user_courses db_completed_again) = [Some 4]
   \<and> progress_of
       (store (handleToggleComplete (session_env ''r4'' 5) (mounted db_in_progress)
                 db_completed_again)) ''u1'' ''c1'' = COMPLETED
   \<and> map completed_at
       (user_courses
          (store (handleToggleComplete (session_env ''r4'' 5) (mounted db_in_progress)
                    db_completed_again))) = [Some 5]"
  unfolding mounted_in_progress
  by (simp add: db_completed_again_rows session_env_def toggle_defs succeeded_def
        progress_of_def)

text \<open>
  C4, amended. When a row exists for the pair and the component's \<open>userCourse\<close> holds its
  identifier and agrees with it on \<open>completed\<close>, a toggle whose request reaches the
  store under the owner's identity updates that row in place: from \<open>completed = false\<close>
  it sets \<open>completed = true\<close> and \<open>completed_at\<close> to the time of the request (result
  \<open>COMPLETED\<close>), from \<open>completed = true\<close> it sets \<open>completed = false\<close> and
  \<open>completed_at\<close> to none (result \<open>IN_PROGRESS\<close>). No row is added or removed, the other
  columns keep their values, the one request sent is the update, and component and
  store agree again afterwards.
\<close>

theorem toggle_in_sync_flips:
  assumes "in_sync u c i b s db" and "fault e = None" and "auth_uid e = Some u"
  shows "progress_of db u c = (if b then COMPLETED else IN_PROGRESS)
         \<and> progress_of (store (handleToggleComplete e s db)) u c
             = (if b then IN_PROGRESS else COMPLETED)
         \<and> list_all (\<lambda>r. user_id r = u \<and> course_id r = c \<longrightarrow>
                         completed r = (\<not> b)
                         \<and> completed_at r = (if b then None else Some (clock1 e)))
             (user_courses (store (handleToggleComplete e s db)))
         \<and> map row_id (user_courses (store (handleToggleComplete e s db)))
             = map row_id (user_courses db)
         \<and> map user_id (user_courses (store (handleToggleComplete e s db)))
             = map user_id (user_courses db)
         \<and> map course_id (user_courses (store (handleToggleComplete e s db)))
             = map course_id (user_courses db)
         \<and> map created_at (user_courses (store (handleToggleComplete e s db)))
             = map created_at (user_courses db)
         \<and> calls (handleToggleComplete e s db)
             = [Update i (\<not> b) (if b then None else Some (clock1 e))]
         \<and> succeeded (handleToggleComplete e s db)
         \<and> in_sync u c i (\<not> b) (view (handleToggleComplete e s db))
             (store (handleToggleComplete e s db))"
proof -
  have before: "progress_of db u c = (if b then COMPLETED else IN_PROGRESS)"
    using in_sync_progress [OF assms(1)] .
  have after: "progress_of (store (handleToggleComplete e s db)) u c
             = (if b then IN_PROGRESS else COMPLETED)"
    using in_sync_progress [OF toggle_step [OF assms]] by simp
  have written: "list_all (\<lambda>r. user_id r = u \<and> course_id r = c \<longrightarrow>
                         completed r = (\<not> b)
                         \<and> completed_at r = (if b then None else Some (clock1 e)))
             (user_courses (store (handleToggleComplete e s db)))"
    using toggle_step_written(1) [OF assms] by (simp add: list_all_iff)
  have sent: "calls (handleToggleComplete e s db)
             = [Update i (\<not> b) (if b then None else Some (clock1 e))]"
    using assms
    by (auto simp add: handleToggleComplete_def db_update_def in_sync_def split: option.splits)
  from before after written sent toggle_step_columns [OF assms] toggle_step_view [OF assms]
    toggle_step [OF assms]
  show ?thesis by simp
qed

theorem toggle_in_sync_flips_witness:
  "in_sync ''u1'' ''c1'' ''r1'' True (mounted db_completed) db_completed
   \<and> fault (session_env ''r2'' 3) = None
   \<and> auth_uid (session_env ''r2'' 3) = Some ''u1''
   \<and> progress_of db_completed ''u1'' ''c1'' = COMPLETED
   \<and> progress_of (store (handleToggleComplete (session_env ''r2'' 3) (mounted db_completed)
                            db_completed)) ''u1'' ''c1'' = IN_PROGRESS"
proof -
  have h: "in_sync ''u1'' ''c1'' ''r1'' True (mounted db_completed) db_completed"
    "fault (session_env ''r2'' 3) = None"
    "auth_uid (session_env ''r2'' 3) = Some ''u1''"
    unfolding mounted_completed
    by (simp_all add: db_completed_rows session_env_def in_sync_def)
  from toggle_in_sync_flips [OF h] h show ?thesis by simp
qed

section \<open>The row invariant\<close>

lemma db_update_rows_wf:
  "db_update e db rid b t = Inr db' \<Longrightarrow> b = (t \<noteq> None) \<Longrightarrow>
     (\<forall>r \<in> set (user_courses db'). r \<notin> set (user_courses db) \<longrightarrow> completed_iff_at r)"
  by (auto simp add: db_update_def completed_iff_at_def split: option.splits)

lemma db_insert_rows_wf:
  "db_insert e db u c b t = Inr (row, db') \<Longrightarrow> b = (t \<noteq> None) \<Longrightarrow>
     completed_iff_at row
     \<and> (\<forall>r \<in> set (user_courses db'). r \<notin> set (user_courses db) \<longrightarrow> completed_iff_at r)"
  by (auto simp add: db_insert_def Let_def completed_iff_at_def split: option.splits if_splits)

lemma toggle_new_rows_wf:
  "r \<in> set (user_courses (store (handleToggleComplete e s db))) \<Longrightarrow>
     r \<notin> set (user_courses db) \<Longrightarrow> completed_iff_at r"
  by (auto simp add: handleToggleComplete_def split: option.splits sum.splits
        dest!: db_update_rows_wf db_insert_rows_wf)

lemma toggle_view_wf:
  "(\<forall>uc. userCourse s = Some uc \<longrightarrow> completed_iff_at uc) \<Longrightarrow>
     userCourse (view (handleToggleComplete e s db)) = Some uc' \<Longrightarrow> completed_iff_at uc'"
  by (auto simp add: handleToggleComplete_def completed_iff_at_def
        split: option.splits sum.splits dest: db_insert_rows_wf)

text \<open>
  C5. Every row a toggle creates or changes in the store has \<open>completed\<close> true exactly
  when \<open>completed_at\<close> is set, whatever the store held before; so a store in which all
  rows have the property keeps it, and so does the row the component holds. The toggle
  is the only operation of the program that writes.
\<close>

theorem toggle_keeps_completed_iff_at:
  "(\<forall>r \<in> set (user_courses (store (handleToggleComplete e s db))).
       r \<notin> set (user_courses db) \<longrightarrow> completed_iff_at r)
   \<and> (list_all completed_iff_at (user_courses db) \<longrightarrow>
        list_all completed_iff_at (user_courses (store (handleToggleComplete e s db))))
   \<and> ((\<forall>uc. userCourse s = Some uc \<longrightarrow> completed_iff_at uc) \<longrightarrow>
        (\<forall>uc. userCourse (view (handleToggleComplete e s db)) = Some uc \<longrightarrow> completed_iff_at uc))"
  using toggle_new_rows_wf [of _ e s db] toggle_view_wf [of s e db]
  unfolding list_all_iff by blast

theorem toggle_keeps_completed_iff_at_witness:
  "list_all completed_iff_at (user_courses db_completed)
   \<and> list_all completed_iff_at
       (user_courses
          (store (handleToggleComplete (session_env ''r2'' 3) (mounted db_completed)
                    db_completed)))"
proof -
  have h: "list_all completed_iff_at (user_courses db_completed)"
    by (simp add: db_completed_rows completed_iff_at_def)
  with toggle_keeps_completed_iff_at
         [of "session_env ''r2'' 3" "mounted db_completed" db_completed]
  show ?thesis by simp
qed

section \<open>The anonymous visitor\<close>

text \<open>
  C6. With no authenticated user in the component, the toggle answers "Authentication
  required", sends the visitor to the login page, sends nothing to the store and leaves
  store and component state as they were.
\<close>

theorem toggle_unauthenticated:
  "user s = None \<Longrightarrow>
     toast_shown (handleToggleComplete e s db) = Some AuthenticationRequired
     \<and> navigated (handleToggleComplete e s db) = Some ''/auth''
     \<and> calls (handleToggleComplete e s db) = []
     \<and> store (handleToggleComplete e s db) = db
     \<and> view (handleToggleComplete e s db) = s"
  by (simp add: handleToggleComplete_def)

theorem toggle_unauthenticated_witness:
  "user ((mounted db_completed)\<lparr>user := None\<rparr>) = None
   \<and> calls (handleToggleComplete (session_env ''r4'' 5) ((mounted db_completed)\<lparr>user := None\<rparr>)
              db_completed) = []
   \<and> store (handleToggleComplete (session_env ''r4'' 5) ((mounted db_completed)\<lparr>user := None\<rparr>)
              db_completed) = db_completed"
  using toggle_unauthenticated
          [of "(mounted db_completed)\<lparr>user := None\<rparr>" "session_env ''r4'' 5" db_completed]
  by simp

section \<open>One write per toggle\<close>

lemma filter_key_le_one:
  "distinct (map f xs) \<Longrightarrow> length (filter (\<lambda>r. f r = k \<and> Q r) xs) \<le> 1"
proof (induction xs)
  case Nil
  then show ?case by simp
next
  case (Cons a xs)
  show ?case
  proof (cases "f a = k")
    case True
    with Cons.prems have "k \<notin> f ` set xs" by simp
    then have "\<forall>r \<in> set xs. f r \<noteq> k" by blast
    then have "filter (\<lambda>r. f r = k \<and> Q r) xs = []"
      by (simp add: filter_empty_conv)
    then show ?thesis by simp
  next
    case False
    with Cons show ?thesis by simp
  qed
qed

lemma filter_key_ge_one:
  "list_ex P xs \<Longrightarrow> 1 \<le> length (filter P xs)"
  by (induction xs) auto

lemma toggle_success_insert:
  assumes "succeeded (handleToggleComplete e s db)" and "userCourse s = None"
  shows "case userCourse (view (handleToggleComplete e s db)) of
           None \<Rightarrow> False
         | Some row \<Rightarrow>
             user_courses (store (handleToggleComplete e s db)) = user_courses db @ [row]
             \<and> row_id row = new_id e \<and> course_id row = param_id s
             \<and> user s = Some (user_id row)
             \<and> completed row \<and> completed_at row = Some (clock1 e)"
  using assms
  by (auto simp add: handleToggleComplete_def succeeded_def db_insert_def Let_def
        split: option.splits if_splits)

lemma toggle_success_update:
  assumes "succeeded (handleToggleComplete e s db)" and "userCourse s = Some uc"
  shows "list_all2
           (\<lambda>r r'. r' = (if row_id r = row_id uc \<and> auth_uid e = Some (user_id r)
                         then r\<lparr>completed := \<not> completed uc,
                                completed_at :=
                                  (if completed uc then None else Some (clock1 e))\<rparr>
                         else r))
           (user_courses db) (user_courses (store (handleToggleComplete e s db)))"
  using assms
  by (auto simp add: handleToggleComplete_def succeeded_def db_update_def list_all2_map2
        list_all2_same split: option.splits)

lemma toggle_success_frame:
  assumes "succeeded (handleToggleComplete e s db)"
  shows "length (calls (handleToggleComplete e s db)) = 1
         \<and> list_all is_write (calls (handleToggleComplete e s db))
         \<and> users (store (handleToggleComplete e s db)) = users db
         \<and> courses (store (handleToggleComplete e s db)) = courses db"
  using assms
  by (auto simp add: handleToggleComplete_def succeeded_def db_update_def db_insert_def Let_def
        split: option.splits if_splits)

lemma toggle_failure_store:
  "\<not> succeeded (handleToggleComplete e s db) \<longrightarrow> store (handleToggleComplete e s db) = db"
  by (simp add: handleToggleComplete_def succeeded_def
        split: option.splits sum.splits prod.splits)

text \<open>
  Against C7 as stated. A page holds the row \<open>r1\<close> of a completed course; the course is
  deleted and the row with it. The toggle of that page sends its update, which matches
  no row and is no error: the page reports success, and the store is as it was, with
  no row created or updated.
\<close>

theorem toggle_one_mutation_counterexample:
  "succeeded (handleToggleComplete (session_env ''r4'' 5) (mounted db_completed)
                db_course_deleted)
   \<and> toast_shown (handleToggleComplete (session_env ''r4'' 5) (mounted db_completed)
                    db_course_deleted) = Some MarkedAsIncomplete
   \<and> calls (handleToggleComplete (session_env ''r4'' 5) (mounted db_completed)
              db_course_deleted) = [Update ''r1'' False None]
   \<and> store (handleToggleComplete (session_env ''r4'' 5) (mounted db_completed)
              db_course_deleted) = db_course_deleted"
  unfolding mounted_completed
  by (simp add: db_course_deleted_def session_env_def toggle_defs succeeded_def)

text \<open>
  C7, amended. A toggle that succeeds has sent exactly one request, a write (the insert
  or the update, never both), and the store differs from before by that statement alone.
  After the insert the table is the old one with exactly one row appended, the row the
  page now holds. After the update no row is added or removed, and the rows written are
  those that bear the identifier the page holds and are visible to the session: at most
  one when identifiers are unique, exactly one when such a row is in the store, none
  when it is gone or hidden. The other tables are untouched. A toggle that does not
  succeed leaves the store as it was.
\<close>

theorem toggle_success_one_statement:
  "(succeeded (handleToggleComplete e s db) \<longrightarrow>
      length (calls (handleToggleComplete e s db)) = 1
      \<and> list_all is_write (calls (handleToggleComplete e s db))
      \<and> users (store (handleToggleComplete e s db)) = users db
      \<and> courses (store (handleToggleComplete e s db)) = courses db
      \<and> (case userCourse s of
            None \<Rightarrow>
              (case userCourse (view (handleToggleComplete e s db)) of
                 None \<Rightarrow> False
               | Some row \<Rightarrow>
                   user_courses (store (handleToggleComplete e s db)) = user_courses db @ [row]
                   \<and> row_id row = new_id e \<and> course_id row = param_id s
                   \<and> user s = Some (user_id row)
                   \<and> completed row \<and> completed_at row = Some (clock1 e))
          | Some uc \<Rightarrow>
              list_all2
                (\<lambda>r r'. r' = (if row_id r = row_id uc \<and> auth_uid e = Some (user_id r)
                              then r\<lparr>completed := \<not> completed uc,
                                     completed_at :=
                                       (if completed uc then None else Some (clock1 e))\<rparr>
                              else r))
                (user_courses db) (user_courses (store (handleToggleComplete e s db)))
              \<and> (distinct (map row_id (user_courses db)) \<longrightarrow>
                    length (filter (\<lambda>r. row_id r = row_id uc \<and> auth_uid e = Some (user_id r))
                              (user_courses db)) \<le> 1)
              \<and> (distinct (map row_id (user_courses db))
                  \<and> list_ex (\<lambda>r. row_id r = row_id uc \<and> auth_uid e = Some (user_id r))
                       (user_courses db) \<longrightarrow>
                    length (filter (\<lambda>r. row_id r = row_id uc \<and> auth_uid e = Some (user_id r))
                              (user_courses db)) = 1)))
   \<and> (\<not> succeeded (handleToggleComplete e s db) \<longrightarrow>
        store (handleToggleComplete e s db) = db)"
proof -
  have le: "distinct (map row_id (user_courses db)) \<Longrightarrow>
      length (filter (\<lambda>r. row_id r = k \<and> auth_uid e = Some (user_id r)) (user_courses db)) \<le> 1"
    for k
    by (rule filter_key_le_one)
  have ge: "list_ex (\<lambda>r. row_id r = k \<and> auth_uid e = Some (user_id r)) (user_courses db) \<Longrightarrow>
      1 \<le> length (filter (\<lambda>r. row_id r = k \<and> auth_uid e = Some (user_id r)) (user_courses db))"
    for k
    by (rule filter_key_ge_one)
  have eq: "distinct (map row_id (user_courses db)) \<Longrightarrow>
      list_ex (\<lambda>r. row_id r = k \<and> auth_uid e = Some (user_id r)) (user_courses db) \<Longrightarrow>
      length (filter (\<lambda>r. row_id r = k \<and> auth_uid e = Some (user_id r)) (user_courses db)) = 1"
    for k
    using le [of k] ge [of k] by simp
  show ?thesis
  proof (cases "userCourse s")
    case None
    with toggle_success_insert [of e s db] toggle_success_frame [of e s db]
      toggle_failure_store [of e s db]
    show ?thesis by auto
  next
    case (Some uc)
    with toggle_success_update [of e s db uc] toggle_success_frame [of e s db]
      toggle_failure_store [of e s db] le [of "row_id uc"] eq [of "row_id uc"]
    show ?thesis by auto
  qed
qed

theorem toggle_success_one_statement_witness:
  "succeeded (handleToggleComplete (session_env ''r2'' 3) (mounted db_completed) db_completed)
   \<and> userCourse (mounted db_completed)
       = Some \<lparr>row_id = ''r1'', user_id = ''u1'', course_id = ''c1'', completed = True,
               completed_at = Some 2, created_at = 2\<rparr>
   \<and> user_courses (store (handleToggleComplete (session_env ''r2'' 3) (mounted db_completed)
                             db_completed))
       = [\<lparr>row_id = ''r1'', user_id = ''u1'', course_id = ''c1'', completed = False,
           completed_at = None, created_at = 2\<rparr>]
   \<and> \<not> succeeded (handleToggleComplete (session_env ''r4'' 5) (mounted db_not_started) db_completed)
   \<and> store (handleToggleComplete (session_env ''r4'' 5) (mounted db_not_started) db_completed)
       = db_completed"
proof -
  have a: "succeeded (handleToggleComplete (session_env ''r2'' 3) (mounted db_completed)
                        db_completed)"
    unfolding mounted_completed
    by (simp add: db_completed_rows session_env_def toggle_defs succeeded_def)
  have v: "userCourse (mounted db_completed)
       = Some \<lparr>row_id = ''r1'', user_id = ''u1'', course_id = ''c1'', completed = True,
               completed_at = Some 2, created_at = 2\<rparr>"
    unfolding mounted_completed by simp
  have b: "\<not> succeeded (handleToggleComplete (session_env ''r4'' 5) (mounted db_not_started)
                          db_completed)"
    unfolding mounted_not_started
    by (simp add: db_completed_rows session_env_def toggle_defs succeeded_def)
  have r: "user_courses db_completed
       = [\<lparr>row_id = ''r1'', user_id = ''u1'', course_id = ''c1'', completed = True,
           completed_at = Some 2, created_at = 2\<rparr>]"
    by (simp add: db_completed_rows)
  have au: "auth_uid (session_env ''r2'' 3) = Some ''u1''"
    by (simp add: session_env_def)
  from toggle_success_one_statement
         [of "session_env ''r2'' 3" "mounted db_completed" db_completed] a v
  have "list_all2
          (\<lambda>r r'. r' = (if row_id r = ''r1'' \<and> auth_uid (session_env ''r2'' 3) = Some (user_id r)
                        then r\<lparr>completed := False, completed_at := None\<rparr> else r))
          (user_courses db_completed)
          (user_courses (store (handleToggleComplete (session_env ''r2'' 3)
                                  (mounted db_completed) db_completed)))"
    by (simp cong: if_cong)
  then have c: "user_courses (store (handleToggleComplete (session_env ''r2'' 3)
                                  (mounted db_completed) db_completed))
       = [\<lparr>row_id = ''r1'', user_id = ''u1'', course_id = ''c1'', completed = False,
           completed_at = None, created_at = 2\<rparr>]"
    unfolding r au by (simp add: list_all2_Cons1)
  from a v b c
    toggle_success_one_statement [of "session_env ''r4'' 5" "mounted db_not_started" db_completed]
  show ?thesis by simp
qed


section \<open>One row per user and course\<close>

lemma pair_of_update:
  "(\<lambda>r. (user_id r, course_id r)) \<circ>
     (\<lambda>r. if P r then r\<lparr>completed := c, completed_at := t\<rparr> else r)
   = (\<lambda>r. (user_id r, course_id r))"
  by (rule ext) simp

lemma db_update_unique_pairs:
  "db_update e db rid b t = Inr db' \<Longrightarrow> unique_pairs db \<Longrightarrow> unique_pairs db'"
  by (auto simp add: db_update_def unique_pairs_def pair_of_update split: option.splits)

lemma db_insert_unique_pairs:
  "db_insert e db u c b t = Inr (r, db') \<Longrightarrow> unique_pairs db \<Longrightarrow> unique_pairs db'"
  by (auto simp add: db_insert_def unique_pairs_def list_ex_iff Let_def
        split: option.splits if_splits)

lemma db_insert_existing_pair:
  "list_ex (\<lambda>r. user_id r = u \<and> course_id r = c) (user_courses db) \<Longrightarrow>
     isl (db_insert e db u c b t)"
  by (simp add: db_insert_def split: option.splits)

lemma toggle_unique_pairs:
  "unique_pairs db \<Longrightarrow> unique_pairs (store (handleToggleComplete e s db))"
  by (auto simp add: handleToggleComplete_def split: option.splits sum.splits
        dest: db_update_unique_pairs db_insert_unique_pairs)

lemma fetchData_store: "store (fetchData e s db) = db"
  by (simp add: fetchData_def split: option.splits sum.splits)

text \<open>
  C8. In a store with at most one row per (user, course) pair, the toggle and the fetch
  on mount leave at most one row per pair. The store itself keeps the property under
  every insert and update it accepts, and it refuses every insert for a pair that has a
  row: that is the \<open>UNIQUE(user_id, course_id)\<close> constraint.
\<close>

theorem store_keeps_unique_pairs:
  assumes "unique_pairs db"
  shows "unique_pairs (store (handleToggleComplete e s db))
         \<and> unique_pairs (store (fetchData e s db))
         \<and> (\<forall>u c b t r db'. db_insert e db u c b t = Inr (r, db') \<longrightarrow> unique_pairs db')
         \<and> (\<forall>rid b t db'. db_update e db rid b t = Inr db' \<longrightarrow> unique_pairs db')
         \<and> (\<forall>u c b t. list_ex (\<lambda>r. user_id r = u \<and> course_id r = c) (user_courses db) \<longrightarrow>
               isl (db_insert e db u c b t))"
  using assms
  by (auto simp add: fetchData_store toggle_unique_pairs db_insert_existing_pair
        dest: db_update_unique_pairs db_insert_unique_pairs)

theorem store_keeps_unique_pairs_witness:
  "unique_pairs db_completed
   \<and> unique_pairs
       (store (handleToggleComplete (session_env ''r2'' 3) (mounted db_completed) db_completed))
   \<and> isl (db_insert (session_env ''r4'' 5) db_completed ''u1'' ''c1'' True (Some 5))"
proof -
  have h: "unique_pairs db_completed"
    by (simp add: db_completed_rows unique_pairs_def)
  have e: "list_ex (\<lambda>r. user_id r = ''u1'' \<and> course_id r = ''c1'') (user_courses db_completed)"
    by (simp add: db_completed_rows)
  from store_keeps_unique_pairs
         [OF h, of "session_env ''r4'' 5" "mounted db_completed"] h e
  have "isl (db_insert (session_env ''r4'' 5) db_completed ''u1'' ''c1'' True (Some 5))"
    by blast
  with store_keeps_unique_pairs
         [OF h, of "session_env ''r2'' 3" "mounted db_completed"] h
  show ?thesis by simp
qed

section \<open>Validation before submission\<close>

text \<open>
  C9. When the e-mail fails the syntax test or the password has fewer than six
  characters (UTF-16 code units, as \<open>.length\<close> counts), neither \<open>handleSignUp\<close> nor
  \<open>handleLogin\<close> sends anything to the identity provider, and the form is left as it
  was.
\<close>

theorem invalid_input_not_submitted:
  "\<not> email_ok (email f) \<or> length (password f) < 6 \<Longrightarrow>
     auth_calls (handleSignUp email_ok origin perr f) = []
     \<and> auth_calls (handleLogin email_ok perr f) = []
     \<and> form (handleSignUp email_ok origin perr f) = f
     \<and> form (handleLogin email_ok perr f) = f"
  by (auto simp add: handleSignUp_def handleLogin_def validateInputs_def)

theorem invalid_input_not_submitted_witness:
  "length (password \<lparr>email = [0x61, 0x40, 0x62], password = [0x31, 0x32, 0x33],
                       auth_loading = False\<rparr>) < 6
   \<and> auth_calls (handleSignUp (\<lambda>s. 0x40 \<in> set s) [0x68] None
        \<lparr>email = [0x61, 0x40, 0x62], password = [0x31, 0x32, 0x33], auth_loading = False\<rparr>) = []
   \<and> auth_calls (handleLogin (\<lambda>s. 0x40 \<in> set s) None
        \<lparr>email = [0x61, 0x40, 0x62], password = [0x31, 0x32, 0x33], auth_loading = False\<rparr>) = []"
  using invalid_input_not_submitted
          [where email_ok = "\<lambda>s. 0x40 \<in> set s" and origin = "[0x68]" and perr = None
             and f = "\<lparr>email = [0x61, 0x40, 0x62], password = [0x31, 0x32, 0x33],
                        auth_loading = False\<rparr>"]
  by simp

section \<open>A failed write and the local view\<close>

text \<open>
  C10. When the write a toggle sends (the update if the component holds a row, the
  insert if not) comes back with an error, \<open>userCourse\<close> keeps its value from before the
  call: the only change to the component is that \<open>updating\<close> is false again. The store
  is unchanged and the error is shown.
\<close>

theorem toggle_write_failure_keeps_view:
  assumes "user s = Some u"
    and "(\<exists>uc. userCourse s = Some uc
            \<and> db_update e db (row_id uc) (\<not> completed uc)
                 (if \<not> completed uc then Some (clock1 e) else None) = Inl err)
         \<or> (userCourse s = None
            \<and> db_insert e db u (param_id s) True (Some (clock1 e)) = Inl err)"
  shows "userCourse (view (handleToggleComplete e s db)) = userCourse s
         \<and> view (handleToggleComplete e s db) = s\<lparr>updating := False\<rparr>
         \<and> store (handleToggleComplete e s db) = db
         \<and> toast_shown (handleToggleComplete e s db) = Some (ErrorToast err)"
  using assms by (auto simp add: handleToggleComplete_def)

theorem toggle_write_failure_keeps_view_witness:
  "user (mounted db_completed) = Some ''u1''
   \<and> db_update ((session_env ''r4'' 5)\<lparr>fault := Some StoreUnavailable\<rparr>) db_completed ''r1''
        False None = Inl StoreUnavailable
   \<and> userCourse (view (handleToggleComplete ((session_env ''r4'' 5)\<lparr>fault := Some StoreUnavailable\<rparr>)
                         (mounted db_completed) db_completed))
       = userCourse (mounted db_completed)
   \<and> store (handleToggleComplete ((session_env ''r4'' 5)\<lparr>fault := Some StoreUnavailable\<rparr>)
              (mounted db_completed) db_completed) = db_completed"
proof -
  have u: "user (mounted db_completed) = Some ''u1''"
    unfolding mounted_completed by simp
  have w: "db_update ((session_env ''r4'' 5)\<lparr>fault := Some StoreUnavailable\<rparr>) db_completed ''r1''
        False None = Inl StoreUnavailable"
    by (simp add: db_update_def session_env_def)
  have w': "(\<exists>uc. userCourse (mounted db_completed) = Some uc
            \<and> db_update ((session_env ''r4'' 5)\<lparr>fault := Some StoreUnavailable\<rparr>) db_completed
                 (row_id uc) (\<not> completed uc)
                 (if \<not> completed uc
                  then Some (clock1 ((session_env ''r4'' 5)\<lparr>fault := Some StoreUnavailable\<rparr>))
                  else None) = Inl StoreUnavailable)
         \<or> (userCourse (mounted db_completed) = None
            \<and> db_insert ((session_env ''r4'' 5)\<lparr>fault := Some StoreUnavailable\<rparr>) db_completed
                 ''u1'' (param_id (mounted db_completed)) True
                 (Some (clock1 ((session_env ''r4'' 5)\<lparr>fault := Some StoreUnavailable\<rparr>)))
               = Inl StoreUnavailable)"
    unfolding mounted_completed using w by simp
  from toggle_write_failure_keeps_view [OF u w'] u w
  show ?thesis by simp
qed

end
